theory Spec2Isabelle
  imports Main
begin

section \<open>The station actor of client.go\<close>

text \<open>
  A shallow embedding of \<^verbatim>\<open>src/client.go\<close>: the per-connection state machine
  \<^verbatim>\<open>Client.Run\<close>, the helpers it calls (\<^verbatim>\<open>sendToRFID\<close>,
  \<^verbatim>\<open>sendToKoha\<close>, \<^verbatim>\<open>stripLeading10\<close>) and the data they work on.
  One turn of the \<^verbatim>\<open>for { select { ... } }\<close> loop is a function from the
  client and the received value to the updated client and the list of effects of that
  turn, in program order. Log lines are not part of the model.
\<close>

subsection \<open>Data\<close>

text \<open>
  Modelled from the spec: the type \<^verbatim>\<open>RFIDState\<close> is declared outside
  \<^verbatim>\<open>client.go\<close>. The five constants that \<^verbatim>\<open>Run\<close> names keep their
  names; \<open>RFIDIdle\<close> is the initial state \<^verbatim>\<open>Idle\<close> of the specification.
  The specification calls them \<^verbatim>\<open>AwaitScanStart\<close> (\<open>RFIDCheckinWaitForBegOK\<close>),
  \<^verbatim>\<open>Scanning\<close> (\<open>RFIDCheckin\<close>), \<^verbatim>\<open>AwaitAlarmOff\<close>
  (\<open>RFIDWaitForCheckinAlarmLeave\<close>), \<^verbatim>\<open>AwaitAlarmOn\<close>
  (\<open>RFIDWaitForCheckinAlarmOn\<close>) and \<^verbatim>\<open>AwaitScanEnd\<close> (\<open>RFIDWaitForEndOK\<close>).
\<close>

datatype RFIDState =
    RFIDIdle
  | RFIDCheckinWaitForBegOK
  | RFIDCheckin
  | RFIDWaitForCheckinAlarmLeave
  | RFIDWaitForCheckinAlarmOn
  | RFIDWaitForEndOK

text \<open>
  Modelled from the spec: the device commands (initialize, begin scan session, end scan
  session, set alarm on, set alarm off) are constants declared outside
  \<^verbatim>\<open>client.go\<close>. \<open>cmdInitVersion\<close>, \<open>cmdBeginScan\<close>, \<open>cmdAlarmOn\<close> and
  \<open>cmdAlarmLeave\<close> are the names the source uses; \<open>cmdAlarmLeave\<close> is the command
  the specification calls \<^verbatim>\<open>set alarm off\<close>. \<open>cmdEndScan\<close> is the
  specification's \<^verbatim>\<open>end scan session\<close>, which \<^verbatim>\<open>client.go\<close> never names.
\<close>

datatype RFIDCmd = cmdInitVersion | cmdBeginScan | cmdEndScan | cmdAlarmOn | cmdAlarmLeave

record RFIDReq =
  Cmd :: RFIDCmd

text \<open>
  Modelled from the spec: the device response (success flag, barcode, tag identifier),
  with the field names \<^verbatim>\<open>Run\<close> reads.
\<close>

record RFIDResp =
  OK :: bool
  Barcode :: string
  Tag :: string

text \<open>
  Modelled from the spec: the UI message and its item (barcode, title, an unknown-item
  flag, a transaction-failed flag), with the field names \<^verbatim>\<open>client.go\<close> uses.
\<close>

record Item =
  Barcode :: string
  Title :: string
  Unknown :: bool
  TransactionFailed :: bool

record Message =
  Action :: string
  Branch :: string
  Item :: Item
  RFIDError :: bool
  SIPError :: bool
  ErrorMessage :: string

text \<open>The zero value \<^verbatim>\<open>Message{}\<close> of Go, from which composite literals start.\<close>

definition Message0 :: Message where
  "Message0 =
     \<lparr>Action = [], Branch = [],
      Item = \<lparr>Item.Barcode = [], Title = [], Unknown = False, TransactionFailed = False\<rparr>,
      RFIDError = False, SIPError = False, ErrorMessage = []\<rparr>"

text \<open>
  The fields of \<^verbatim>\<open>Client\<close> that \<^verbatim>\<open>Run\<close> reads or writes. The maps are
  assumed allocated (a store into a nil map would panic); the connections, the hub and
  the channels appear through the effects and the environment below.
\<close>

record Client =
  state :: RFIDState
  branch :: string
  current :: Message
  items :: "string \<rightharpoonup> Message"
  failedAlarmOn :: "string \<rightharpoonup> string"
  failedAlarmOff :: "string \<rightharpoonup> string"

subsection \<open>Backend calls, the environment and effects\<close>

text \<open>
  The requests \<^verbatim>\<open>sipFormMsgItemStatus(barcode)\<close> and
  \<^verbatim>\<open>sipFormMsgCheckin(branch, barcode)\<close> with the arguments \<^verbatim>\<open>Run\<close>
  passes, and the two parsers it hands to \<^verbatim>\<open>DoSIPCall\<close>.
\<close>

datatype sipFormMsg =
    sipFormMsgItemStatus string
  | sipFormMsgCheckin string string

datatype sipParser = itemStatusParse | checkinParse

text \<open>
  What a turn cannot decide by itself: the result of \<^verbatim>\<open>DoSIPCall\<close> (Go returns
  both the message and the error; \<open>None\<close> is a nil error, \<open>Some m\<close> an error whose
  \<^verbatim>\<open>Error()\<close> is \<open>m\<close>) and whether \<^verbatim>\<open>c.rfidconn.Write\<close> fails.
\<close>

record env =
  DoSIPCall :: "sipFormMsg \<Rightarrow> sipParser \<Rightarrow> Message \<times> string option"
  rfidWrite :: "RFIDReq \<Rightarrow> string option"

datatype effect =
    SIPCall sipFormMsg sipParser
  | RfidReset
  | ToRFID RFIDReq
  | ToKoha Message
  | QuitSignal
  | CloseUI

text \<open>
  \<open>SIPCall\<close>: \<^verbatim>\<open>DoSIPCall\<close> was invoked; \<open>RfidReset\<close>: \<^verbatim>\<open>c.rfid.Reset()\<close>;
  \<open>ToRFID\<close>: the encoded request was handed to \<^verbatim>\<open>c.rfidconn.Write\<close>;
  \<open>ToKoha\<close>: \<^verbatim>\<open>c.sendToKoha\<close> was called with the message;
  \<open>QuitSignal\<close>: \<^verbatim>\<open>c.quit <- true\<close>; \<open>CloseUI\<close>: the close frame written
  when \<^verbatim>\<open>Run\<close> returns. The send on \<^verbatim>\<open>c.quit\<close> is taken not to block
  (the channel is made outside \<^verbatim>\<open>client.go\<close>), so the statements after it run;
  that \<^verbatim>\<open>sendToKoha\<close> gives up silently when the UI connection fails is not
  told apart from a delivered message.
\<close>

subsection \<open>Helpers\<close>

definition HasPrefix :: "string \<Rightarrow> string \<Rightarrow> bool" where
  "HasPrefix s prefix = (length prefix \<le> length s \<and> take (length prefix) s = prefix)"

definition TrimPrefix :: "string \<Rightarrow> string \<Rightarrow> string" where
  "TrimPrefix s prefix = (if HasPrefix s prefix then drop (length prefix) s else s)"

definition stripLeading10 :: "string \<Rightarrow> string" where
  "stripLeading10 barcode = TrimPrefix barcode ''10''"

definition sendToKoha :: "Message \<Rightarrow> effect list" where
  "sendToKoha msg = [ToKoha msg]"

definition sendToRFID :: "env \<Rightarrow> RFIDReq \<Rightarrow> effect list" where
  "sendToRFID e req =
     (case rfidWrite e req of
        Some err \<Rightarrow>
          ToRFID req #
          sendToKoha (Message0\<lparr>Action := ''CONNECT'', RFIDError := True, ErrorMessage := err\<rparr>) @
          [QuitSignal]
      | None \<Rightarrow> [ToRFID req])"

subsection \<open>One turn of the loop\<close>

text \<open>\<^verbatim>\<open>case msg := <-c.fromKoha\<close>: the switch on \<^verbatim>\<open>msg.Action\<close>.\<close>

definition fromKoha :: "env \<Rightarrow> Client \<Rightarrow> Message \<Rightarrow> Client \<times> effect list" where
  "fromKoha e c msg =
     (if Action msg = ''CHECKIN'' then
        (c\<lparr>state := RFIDCheckinWaitForBegOK, branch := Branch msg\<rparr>,
         RfidReset # sendToRFID e \<lparr>Cmd = cmdBeginScan\<rparr>)
      else if Action msg = ''END'' then (c\<lparr>state := RFIDWaitForEndOK\<rparr>, [])
      else if Action msg = ''ITEM-INFO'' then (c, [])
      else if Action msg = ''WRITE'' then (c, [])
      else if Action msg = ''CHECKOUT'' then (c, [])
      else if Action msg = ''RETRY-ALARM-ON'' then (c, [])
      else if Action msg = ''RETRY-ALARM-OFF'' then (c, [])
      else (c, []))"

text \<open>
  State \<^verbatim>\<open>RFIDCheckin\<close>, response not OK (lines 76 to 94): the item-status call
  when the stripped barcode is not the current item's, its error branch, and the
  bookkeeping after it.
\<close>

definition checkinNotOK :: "env \<Rightarrow> Client \<Rightarrow> RFIDResp \<Rightarrow> Client \<times> effect list" where
  "checkinNotOK e c resp =
     (let (c1, es1, failed) =
        (if stripLeading10 (RFIDResp.Barcode resp) \<noteq> Item.Barcode (Item (current c)) then
           (case DoSIPCall e (sipFormMsgItemStatus (RFIDResp.Barcode resp)) itemStatusParse of
              (m, Some err) \<Rightarrow>
                (c\<lparr>current := m\<rparr>,
                 SIPCall (sipFormMsgItemStatus (RFIDResp.Barcode resp)) itemStatusParse #
                 sendToKoha (Message0\<lparr>Action := ''CONNECT'', SIPError := True,
                                      ErrorMessage := err\<rparr>) @
                 [QuitSignal],
                 True)
            | (m, None) \<Rightarrow>
                (c\<lparr>current := m\<rparr>,
                 [SIPCall (sipFormMsgItemStatus (RFIDResp.Barcode resp)) itemStatusParse],
                 False))
         else (c, [], False))
      in if failed then (c1, es1)
         else
           (let c2 = c1\<lparr>current := (current c1)\<lparr>Action := ''CHECKIN''\<rparr>\<rparr>;
                c3 = c2\<lparr>items := (items c2)(stripLeading10 (RFIDResp.Barcode resp) \<mapsto> current c2)\<rparr>
            in (c3\<lparr>state := RFIDWaitForCheckinAlarmLeave\<rparr>,
                es1 @ sendToRFID e \<lparr>Cmd = cmdAlarmLeave\<rparr>)))"

text \<open>
  State \<^verbatim>\<open>RFIDCheckin\<close>, response OK (lines 96 to 112): the checkin call, its
  error branch, and the alarm command chosen from the returned item.
\<close>

definition checkinOK :: "env \<Rightarrow> Client \<Rightarrow> RFIDResp \<Rightarrow> Client \<times> effect list" where
  "checkinOK e c resp =
     (case DoSIPCall e (sipFormMsgCheckin (branch c) (RFIDResp.Barcode resp)) checkinParse of
        (m, Some err) \<Rightarrow>
          (c\<lparr>current := m\<rparr>,
           SIPCall (sipFormMsgCheckin (branch c) (RFIDResp.Barcode resp)) checkinParse #
           sendToKoha (Message0\<lparr>Action := ''CHECKIN'', SIPError := True, ErrorMessage := err\<rparr>))
      | (m, None) \<Rightarrow>
          (let c1 = c\<lparr>current := m\<rparr>
           in if Unknown (Item (current c1)) \<or> TransactionFailed (Item (current c1)) then
                (c1\<lparr>state := RFIDWaitForCheckinAlarmLeave\<rparr>,
                 SIPCall (sipFormMsgCheckin (branch c) (RFIDResp.Barcode resp)) checkinParse #
                 sendToRFID e \<lparr>Cmd = cmdAlarmLeave\<rparr>)
              else
                (c1\<lparr>items := (items c1)(stripLeading10 (RFIDResp.Barcode resp) \<mapsto> current c1),
                    failedAlarmOn :=
                      (failedAlarmOn c1)(stripLeading10 (RFIDResp.Barcode resp) \<mapsto> Tag resp),
                    state := RFIDWaitForCheckinAlarmOn\<rparr>,
                 SIPCall (sipFormMsgCheckin (branch c) (RFIDResp.Barcode resp)) checkinParse #
                 sendToRFID e \<lparr>Cmd = cmdAlarmOn\<rparr>)))"

text \<open>\<^verbatim>\<open>case resp := <-c.fromRFID\<close>: the switch on \<^verbatim>\<open>c.state\<close>.\<close>

definition fromRFID :: "env \<Rightarrow> Client \<Rightarrow> RFIDResp \<Rightarrow> Client \<times> effect list" where
  "fromRFID e c resp =
     (case state c of
        RFIDCheckinWaitForBegOK \<Rightarrow>
          (if \<not> OK resp then
             (c, sendToKoha (Message0\<lparr>Action := ''CONNECT'', RFIDError := True\<rparr>) @ [QuitSignal])
           else (c\<lparr>state := RFIDCheckin\<rparr>, []))
      | RFIDCheckin \<Rightarrow> (if \<not> OK resp then checkinNotOK e c resp else checkinOK e c resp)
      | _ \<Rightarrow> (c, []))"

subsection \<open>The loop\<close>

text \<open>
  What \<^verbatim>\<open>select\<close> receives, in the order it receives it. \<^verbatim>\<open>Run\<close> returns on
  the quit channel; the flag of the result says whether it has returned. The goroutine
  \<^verbatim>\<open>initRFID\<close> that \<^verbatim>\<open>Run\<close> starts first runs beside the loop and touches
  none of the fields of \<open>Client\<close> above; what it and the two readers deliver is in
  the list of events.
\<close>

datatype event = FromKoha Message | FromRFID RFIDResp | FromQuit

fun Run :: "env \<Rightarrow> Client \<Rightarrow> event list \<Rightarrow> Client \<times> effect list \<times> bool" where
  "Run e c [] = (c, [], False)"
| "Run e c (FromKoha msg # evs) =
     (let (c1, es1) = fromKoha e c msg; (c2, es2, r) = Run e c1 evs in (c2, es1 @ es2, r))"
| "Run e c (FromRFID resp # evs) =
     (let (c1, es1) = fromRFID e c resp; (c2, es2, r) = Run e c1 evs in (c2, es1 @ es2, r))"
| "Run e c (FromQuit # evs) = (c, [CloseUI], True)"

text \<open>The device commands among the effects of a turn, and the messages to the UI.\<close>

fun toRFID :: "effect list \<Rightarrow> RFIDReq list" where
  "toRFID [] = []"
| "toRFID (ToRFID req # es) = req # toRFID es"
| "toRFID (_ # es) = toRFID es"

fun toKoha :: "effect list \<Rightarrow> Message list" where
  "toKoha [] = []"
| "toKoha (ToKoha msg # es) = msg # toKoha es"
| "toKoha (_ # es) = toKoha es"

fun sipCalls :: "effect list \<Rightarrow> (sipFormMsg \<times> sipParser) list" where
  "sipCalls [] = []"
| "sipCalls (SIPCall m p # es) = (m, p) # sipCalls es"
| "sipCalls (_ # es) = sipCalls es"

subsection \<open>A concrete station\<close>

text \<open>
  Concrete inputs for the theorems below: a backend that answers every call with the
  item \<open>A1\<close>, one that answers with an unknown item, one that fails; a device
  connection whose writes succeed; the responses of a device that read the tag of
  \<open>10A1\<close>, or missed the tag of \<open>10A1\<close> or \<open>10B2\<close>; and the clients
  that \<open>Run\<close> reaches from the initial one: \<open>scanning\<close> after a CHECKIN and the
  device's OK, \<open>armed_A1\<close> after a scan of \<open>10A1\<close> that the backend accepted,
  \<open>rescanning\<close> after a second CHECKIN and the device's OK.
\<close>

definition item_A1 :: Item where
  "item_A1 = \<lparr>Item.Barcode = ''A1'', Title = ''A book'', Unknown = False, TransactionFailed = False\<rparr>"

definition item_unknown :: Item where
  "item_unknown = \<lparr>Item.Barcode = ''A1'', Title = [], Unknown = True, TransactionFailed = False\<rparr>"

definition env_ok :: env where
  "env_ok = \<lparr>DoSIPCall = (\<lambda>req p. (Message0\<lparr>Item := item_A1\<rparr>, None)), rfidWrite = (\<lambda>req. None)\<rparr>"

definition env_unknown :: env where
  "env_unknown = \<lparr>DoSIPCall = (\<lambda>req p. (Message0\<lparr>Item := item_unknown\<rparr>, None)), rfidWrite = (\<lambda>req. None)\<rparr>"

definition env_sip_down :: env where
  "env_sip_down = \<lparr>DoSIPCall = (\<lambda>req p. (Message0, Some ''timeout'')), rfidWrite = (\<lambda>req. None)\<rparr>"

definition client0 :: Client where
  "client0 = \<lparr>state = RFIDIdle, branch = [], current = Message0, items = Map.empty,
     failedAlarmOn = Map.empty, failedAlarmOff = Map.empty\<rparr>"

definition resp_ok :: RFIDResp where
  "resp_ok = \<lparr>OK = True, Barcode = [], Tag = []\<rparr>"

definition scan_A1 :: RFIDResp where
  "scan_A1 = \<lparr>OK = True, Barcode = ''10A1'', Tag = ''T1''\<rparr>"

definition miss_A1 :: RFIDResp where
  "miss_A1 = \<lparr>OK = False, Barcode = ''10A1'', Tag = []\<rparr>"

definition miss_B2 :: RFIDResp where
  "miss_B2 = \<lparr>OK = False, Barcode = ''10B2'', Tag = []\<rparr>"

definition checkin_B1 :: Message where
  "checkin_B1 = Message0\<lparr>Action := ''CHECKIN'', Branch := ''B1''\<rparr>"

definition end_msg :: Message where
  "end_msg = Message0\<lparr>Action := ''END''\<rparr>"

definition retry_on_A1 :: Message where
  "retry_on_A1 = Message0\<lparr>Action := ''RETRY-ALARM-ON'', Item := item_A1\<rparr>"

definition scanning :: Client where
  "scanning = fst (Run env_ok client0 [FromKoha checkin_B1, FromRFID resp_ok])"

definition armed_A1 :: Client where
  "armed_A1 = fst (Run env_ok client0 [FromKoha checkin_B1, FromRFID resp_ok, FromRFID scan_A1])"

definition rescanning :: Client where
  "rescanning = fst (Run env_ok client0
     [FromKoha checkin_B1, FromRFID resp_ok, FromRFID scan_A1, FromKoha checkin_B1, FromRFID resp_ok])"

section \<open>Auxiliary facts\<close>

lemmas fixtures = item_A1_def item_unknown_def env_ok_def env_unknown_def env_sip_down_def client0_def
  scan_A1_def resp_ok_def miss_A1_def miss_B2_def checkin_B1_def end_msg_def retry_on_A1_def
lemmas turn_defs = fromKoha_def fromRFID_def checkinOK_def checkinNotOK_def sendToRFID_def
  sendToKoha_def stripLeading10_def TrimPrefix_def HasPrefix_def Message0_def

lemma scanning_eq:
  "scanning = \<lparr>state = RFIDCheckin, branch = ''B1'', current = Message0, items = Map.empty,
      failedAlarmOn = Map.empty, failedAlarmOff = Map.empty\<rparr>"
  by (simp add: scanning_def fixtures turn_defs)

lemma armed_A1_eq:
  "armed_A1 = \<lparr>state = RFIDWaitForCheckinAlarmOn, branch = ''B1'', current = Message0\<lparr>Item := item_A1\<rparr>,
      items = [''A1'' \<mapsto> Message0\<lparr>Item := item_A1\<rparr>], failedAlarmOn = [''A1'' \<mapsto> ''T1''],
      failedAlarmOff = Map.empty\<rparr>"
  by (simp add: armed_A1_def fixtures turn_defs)

lemma rescanning_eq:
  "rescanning = \<lparr>state = RFIDCheckin, branch = ''B1'', current = Message0\<lparr>Item := item_A1\<rparr>,
      items = [''A1'' \<mapsto> Message0\<lparr>Item := item_A1\<rparr>], failedAlarmOn = [''A1'' \<mapsto> ''T1''],
      failedAlarmOff = Map.empty\<rparr>"
  by (simp add: rescanning_def fixtures turn_defs)

lemma toRFID_sendToRFID: "toRFID (sendToRFID e req) = [req]"
  by (simp add: sendToRFID_def sendToKoha_def split: option.splits)

lemma sipCalls_sendToRFID: "sipCalls (sendToRFID e req) = []"
  by (simp add: sendToRFID_def sendToKoha_def split: option.splits)

lemma fromRFID_other_state:
  "state c \<noteq> RFIDCheckinWaitForBegOK \<Longrightarrow> state c \<noteq> RFIDCheckin \<Longrightarrow> fromRFID e c resp = (c, [])"
  by (cases "state c") (simp_all add: fromRFID_def)

lemma fromRFID_checkin:
  "state c = RFIDCheckin \<Longrightarrow>
   fromRFID e c resp = (if \<not> OK resp then checkinNotOK e c resp else checkinOK e c resp)"
  by (simp add: fromRFID_def)

text \<open>The branches of a turn in state \<open>RFIDCheckin\<close>, one equation each.\<close>

lemma checkinOK_error:
  assumes "DoSIPCall e (sipFormMsgCheckin (branch c) (RFIDResp.Barcode resp)) checkinParse = (m, Some err)"
  shows "checkinOK e c resp =
           (c\<lparr>current := m\<rparr>,
            [SIPCall (sipFormMsgCheckin (branch c) (RFIDResp.Barcode resp)) checkinParse,
             ToKoha (Message0\<lparr>Action := ''CHECKIN'', SIPError := True, ErrorMessage := err\<rparr>)])"
  using assms by (simp add: checkinOK_def sendToKoha_def)

lemma checkinOK_release:
  assumes "DoSIPCall e (sipFormMsgCheckin (branch c) (RFIDResp.Barcode resp)) checkinParse = (m, None)"
    and "Unknown (Item m) \<or> TransactionFailed (Item m)"
  shows "checkinOK e c resp =
           (c\<lparr>current := m, state := RFIDWaitForCheckinAlarmLeave\<rparr>,
            SIPCall (sipFormMsgCheckin (branch c) (RFIDResp.Barcode resp)) checkinParse #
            sendToRFID e \<lparr>Cmd = cmdAlarmLeave\<rparr>)"
  using assms by (simp add: checkinOK_def)

lemma checkinOK_arm:
  assumes "DoSIPCall e (sipFormMsgCheckin (branch c) (RFIDResp.Barcode resp)) checkinParse = (m, None)"
    and "\<not> (Unknown (Item m) \<or> TransactionFailed (Item m))"
  shows "checkinOK e c resp =
           (c\<lparr>current := m,
               items := (items c)(stripLeading10 (RFIDResp.Barcode resp) \<mapsto> m),
               failedAlarmOn := (failedAlarmOn c)(stripLeading10 (RFIDResp.Barcode resp) \<mapsto> Tag resp),
               state := RFIDWaitForCheckinAlarmOn\<rparr>,
            SIPCall (sipFormMsgCheckin (branch c) (RFIDResp.Barcode resp)) checkinParse #
            sendToRFID e \<lparr>Cmd = cmdAlarmOn\<rparr>)"
  using assms by (simp add: checkinOK_def)

lemma sipCalls_checkinOK:
  "sipCalls (snd (checkinOK e c resp)) =
     [(sipFormMsgCheckin (branch c) (RFIDResp.Barcode resp), checkinParse)]"
  by (simp add: checkinOK_def sendToKoha_def sipCalls_sendToRFID Let_def
      split: prod.splits option.splits)

lemma checkinNotOK_same:
  assumes "stripLeading10 (RFIDResp.Barcode resp) = Item.Barcode (Item (current c))"
  shows "checkinNotOK e c resp =
           (c\<lparr>current := (current c)\<lparr>Action := ''CHECKIN''\<rparr>,
               items := (items c)(stripLeading10 (RFIDResp.Barcode resp) \<mapsto>
                          (current c)\<lparr>Action := ''CHECKIN''\<rparr>),
               state := RFIDWaitForCheckinAlarmLeave\<rparr>,
            sendToRFID e \<lparr>Cmd = cmdAlarmLeave\<rparr>)"
  using assms by (simp add: checkinNotOK_def Let_def)

lemma checkinNotOK_query_ok:
  assumes "stripLeading10 (RFIDResp.Barcode resp) \<noteq> Item.Barcode (Item (current c))"
    and "DoSIPCall e (sipFormMsgItemStatus (RFIDResp.Barcode resp)) itemStatusParse = (m, None)"
  shows "checkinNotOK e c resp =
           (c\<lparr>current := m\<lparr>Action := ''CHECKIN''\<rparr>,
               items := (items c)(stripLeading10 (RFIDResp.Barcode resp) \<mapsto>
                          m\<lparr>Action := ''CHECKIN''\<rparr>),
               state := RFIDWaitForCheckinAlarmLeave\<rparr>,
            SIPCall (sipFormMsgItemStatus (RFIDResp.Barcode resp)) itemStatusParse #
            sendToRFID e \<lparr>Cmd = cmdAlarmLeave\<rparr>)"
  using assms by (simp add: checkinNotOK_def Let_def)

lemma checkinNotOK_query_error:
  assumes "stripLeading10 (RFIDResp.Barcode resp) \<noteq> Item.Barcode (Item (current c))"
    and "DoSIPCall e (sipFormMsgItemStatus (RFIDResp.Barcode resp)) itemStatusParse = (m, Some err)"
  shows "checkinNotOK e c resp =
           (c\<lparr>current := m\<rparr>,
            [SIPCall (sipFormMsgItemStatus (RFIDResp.Barcode resp)) itemStatusParse,
             ToKoha (Message0\<lparr>Action := ''CONNECT'', SIPError := True, ErrorMessage := err\<rparr>),
             QuitSignal])"
  using assms by (simp add: checkinNotOK_def Let_def sendToKoha_def)

lemma sipCalls_checkinNotOK:
  "sipCalls (snd (checkinNotOK e c resp)) =
     (if stripLeading10 (RFIDResp.Barcode resp) \<noteq> Item.Barcode (Item (current c))
      then [(sipFormMsgItemStatus (RFIDResp.Barcode resp), itemStatusParse)] else [])"
proof (cases "stripLeading10 (RFIDResp.Barcode resp) = Item.Barcode (Item (current c))")
  case True
  then show ?thesis by (simp add: checkinNotOK_same sipCalls_sendToRFID)
next
  case False
  obtain m r where d: "DoSIPCall e (sipFormMsgItemStatus (RFIDResp.Barcode resp)) itemStatusParse = (m, r)"
    by (cases "DoSIPCall e (sipFormMsgItemStatus (RFIDResp.Barcode resp)) itemStatusParse")
  show ?thesis
  proof (cases r)
    case None
    with False d show ?thesis by (simp add: checkinNotOK_query_ok sipCalls_sendToRFID)
  next
    case (Some err)
    with False d show ?thesis by (simp add: checkinNotOK_query_error)
  qed
qed

section \<open>Barcode normalisation\<close>

lemma HasPrefix_10: "HasPrefix b ''10'' = (take 2 b = ''10'')"
proof -
  have "2 \<le> length b" if a: "take 2 b = ''10''"
  proof -
    have "length (take 2 b) = 2" unfolding a by simp
    then show ?thesis by simp
  qed
  then show ?thesis by (auto simp: HasPrefix_def numeral_2_eq_2)
qed

text \<open>
  C9. \<open>stripLeading10\<close> removes the two characters \<open>10\<close> from the front of a barcode
  that starts with them, once: what follows the prefix is returned as it is, also when
  it starts with \<open>10\<close> again or holds \<open>10\<close> anywhere later; a barcode that does not
  start with \<open>10\<close> is returned unchanged. Normalising \<open>1010A1\<close> gives \<open>10A1\<close>.
\<close>

theorem stripLeading10_once:
  "stripLeading10 (''10'' @ s) = s
   \<and> stripLeading10 (''10'' @ ''10'' @ s) = ''10'' @ s
   \<and> stripLeading10 b = (if take 2 b = ''10'' then drop 2 b else b)
   \<and> stripLeading10 ''1010A1'' = ''10A1''"
  by (simp add: stripLeading10_def TrimPrefix_def HasPrefix_10 numeral_2_eq_2)

section \<open>Device responses outside the scan states\<close>

text \<open>
  C10. A device response handled while the state is neither \<open>RFIDCheckinWaitForBegOK\<close>
  nor \<open>RFIDCheckin\<close> (so in \<open>RFIDIdle\<close>, in both alarm-wait states and in
  \<open>RFIDWaitForEndOK\<close>) is discarded: the client is unchanged and the turn has no
  effect at all, in particular no UI message and no device command.
\<close>

theorem response_discarded_outside_scan:
  assumes "state c \<noteq> RFIDCheckinWaitForBegOK" and "state c \<noteq> RFIDCheckin"
  shows "fromRFID e c resp = (c, [])
         \<and> toKoha (snd (fromRFID e c resp)) = [] \<and> toRFID (snd (fromRFID e c resp)) = []"
  using assms by (simp add: fromRFID_other_state)

theorem response_discarded_outside_scan_witness:
  "state armed_A1 \<noteq> RFIDCheckinWaitForBegOK \<and> state armed_A1 \<noteq> RFIDCheckin
   \<and> fromRFID env_ok armed_A1 scan_A1 = (armed_A1, [])
   \<and> fromRFID env_ok (armed_A1\<lparr>state := RFIDWaitForCheckinAlarmLeave\<rparr>) resp_ok
       = (armed_A1\<lparr>state := RFIDWaitForCheckinAlarmLeave\<rparr>, [])
   \<and> fromRFID env_ok (armed_A1\<lparr>state := RFIDWaitForEndOK\<rparr>) resp_ok
       = (armed_A1\<lparr>state := RFIDWaitForEndOK\<rparr>, [])
   \<and> fromRFID env_ok client0 resp_ok = (client0, [])"
proof -
  have a: "state armed_A1 \<noteq> RFIDCheckinWaitForBegOK" "state armed_A1 \<noteq> RFIDCheckin"
    by (simp_all add: armed_A1_eq)
  have b: "state client0 \<noteq> RFIDCheckinWaitForBegOK" "state client0 \<noteq> RFIDCheckin"
    by (simp_all add: client0_def)
  show ?thesis
    using a response_discarded_outside_scan [OF a, of env_ok scan_A1]
      response_discarded_outside_scan [of "armed_A1\<lparr>state := RFIDWaitForCheckinAlarmLeave\<rparr>" env_ok resp_ok]
      response_discarded_outside_scan [of "armed_A1\<lparr>state := RFIDWaitForEndOK\<rparr>" env_ok resp_ok]
      response_discarded_outside_scan [OF b, of env_ok resp_ok]
    by simp
qed

section \<open>A successful alarm response\<close>

text \<open>
  C1, as stated, fails: after the scan of \<open>10A1\<close> was checked in and alarm-on was
  sent, the device's successful response leaves the entry \<open>A1\<close> in
  \<open>failedAlarmOn\<close> and the state in \<open>RFIDWaitForCheckinAlarmOn\<close>.
\<close>

theorem alarm_ok_counterexample:
  "OK scan_A1 \<and> state armed_A1 = RFIDWaitForCheckinAlarmOn
   \<and> stripLeading10 (RFIDResp.Barcode scan_A1) = ''A1''
   \<and> failedAlarmOn (fst (fromRFID env_ok armed_A1 scan_A1)) ''A1'' = Some ''T1''
   \<and> state (fst (fromRFID env_ok armed_A1 scan_A1)) \<noteq> RFIDCheckin"
  by (simp add: armed_A1_eq fromRFID_def scan_A1_def stripLeading10_def TrimPrefix_def HasPrefix_def)

text \<open>
  C1, amended. A successful device response handled in \<open>RFIDWaitForCheckinAlarmOn\<close>
  or \<open>RFIDWaitForCheckinAlarmLeave\<close> changes neither the state nor any of the two
  retry maps, and the turn has no effect.
\<close>

theorem alarm_ok_keeps_retry_maps:
  assumes "state c = RFIDWaitForCheckinAlarmOn \<or> state c = RFIDWaitForCheckinAlarmLeave"
    and "OK resp" and "fromRFID e c resp = (c', es)"
  shows "state c' = state c \<and> failedAlarmOn c' = failedAlarmOn c
         \<and> failedAlarmOff c' = failedAlarmOff c \<and> es = []"
proof -
  from assms(1) have "fromRFID e c resp = (c, [])"
    by (auto simp: fromRFID_other_state)
  with assms(3) show ?thesis by simp
qed

theorem alarm_ok_keeps_retry_maps_witness:
  "(state armed_A1 = RFIDWaitForCheckinAlarmOn \<or> state armed_A1 = RFIDWaitForCheckinAlarmLeave)
   \<and> OK scan_A1
   \<and> state (fst (fromRFID env_ok armed_A1 scan_A1)) = RFIDWaitForCheckinAlarmOn
   \<and> failedAlarmOn (fst (fromRFID env_ok armed_A1 scan_A1)) = [''A1'' \<mapsto> ''T1'']
   \<and> failedAlarmOff (fst (fromRFID env_ok armed_A1 scan_A1)) = Map.empty
   \<and> snd (fromRFID env_ok armed_A1 scan_A1) = []"
proof -
  have a: "state armed_A1 = RFIDWaitForCheckinAlarmOn \<or> state armed_A1 = RFIDWaitForCheckinAlarmLeave"
    by (simp add: armed_A1_eq)
  have b: "OK scan_A1" by (simp add: scan_A1_def)
  have c: "fromRFID env_ok armed_A1 scan_A1
           = (fst (fromRFID env_ok armed_A1 scan_A1), snd (fromRFID env_ok armed_A1 scan_A1))"
    by simp
  from alarm_ok_keeps_retry_maps [OF a b c] a b show ?thesis
    by (simp add: armed_A1_eq)
qed


section \<open>UI actions\<close>

text \<open>
  C2, as stated, fails: with the entry \<open>A1\<close> in \<open>failedAlarmOn\<close>, a
  RETRY-ALARM-ON for \<open>A1\<close> hands no command to the device and leaves the state
  \<open>RFIDCheckin\<close>; it does not move to \<open>RFIDWaitForCheckinAlarmOn\<close>.
\<close>

theorem retry_alarm_on_counterexample:
  "Action retry_on_A1 = ''RETRY-ALARM-ON''
   \<and> failedAlarmOn rescanning (Item.Barcode (Item retry_on_A1)) = Some ''T1''
   \<and> state rescanning = RFIDCheckin
   \<and> fromKoha env_ok rescanning retry_on_A1 = (rescanning, [])
   \<and> toRFID (snd (fromKoha env_ok rescanning retry_on_A1)) = []
   \<and> state (fst (fromKoha env_ok rescanning retry_on_A1)) \<noteq> RFIDWaitForCheckinAlarmOn"
  by (simp add: rescanning_eq fromKoha_def retry_on_A1_def item_A1_def Message0_def)

text \<open>
  C2, amended. A RETRY-ALARM-ON or RETRY-ALARM-OFF action, whether or not the barcode
  has an entry in the retry map, leaves the client unchanged and the turn without
  effect: no device command is sent.
\<close>

theorem retry_is_noop:
  assumes "Action msg = ''RETRY-ALARM-ON'' \<or> Action msg = ''RETRY-ALARM-OFF''"
  shows "fromKoha e c msg = (c, []) \<and> toRFID (snd (fromKoha e c msg)) = []"
  using assms by (auto simp: fromKoha_def)

theorem retry_is_noop_witness:
  "(Action retry_on_A1 = ''RETRY-ALARM-ON'' \<or> Action retry_on_A1 = ''RETRY-ALARM-OFF'')
   \<and> fromKoha env_ok rescanning retry_on_A1 = (rescanning, [])
   \<and> fromKoha env_ok client0 (Message0\<lparr>Action := ''RETRY-ALARM-OFF''\<rparr>) = (client0, [])"
proof -
  have a: "Action retry_on_A1 = ''RETRY-ALARM-ON'' \<or> Action retry_on_A1 = ''RETRY-ALARM-OFF''"
    by (simp add: retry_on_A1_def)
  have b: "Action (Message0\<lparr>Action := ''RETRY-ALARM-OFF''\<rparr>) = ''RETRY-ALARM-ON''
           \<or> Action (Message0\<lparr>Action := ''RETRY-ALARM-OFF''\<rparr>) = ''RETRY-ALARM-OFF''"
    by simp
  from retry_is_noop [OF a, of env_ok rescanning] retry_is_noop [OF b, of env_ok client0] a
  show ?thesis by simp
qed

text \<open>
  C3, as stated, fails: a CHECKIN handled in state \<open>RFIDCheckin\<close> moves the state to
  \<open>RFIDCheckinWaitForBegOK\<close>, resets the codec and hands begin-scan to the device.
\<close>

theorem checkin_while_scanning_counterexample:
  "Action checkin_B1 = ''CHECKIN'' \<and> state scanning = RFIDCheckin
   \<and> state (fst (fromKoha env_ok scanning checkin_B1)) = RFIDCheckinWaitForBegOK
   \<and> state (fst (fromKoha env_ok scanning checkin_B1)) \<noteq> state scanning
   \<and> snd (fromKoha env_ok scanning checkin_B1) = [RfidReset, ToRFID \<lparr>Cmd = cmdBeginScan\<rparr>]"
  by (simp add: scanning_eq fromKoha_def checkin_B1_def env_ok_def sendToRFID_def)

text \<open>
  C3, amended. A CHECKIN action is accepted in every state: the state becomes
  \<open>RFIDCheckinWaitForBegOK\<close>, the branch is the message's, the codec is reset and
  begin-scan is handed to the device; the current transaction, the pending-items map
  and both retry maps are unchanged.
\<close>

theorem checkin_in_every_state:
  assumes "Action msg = ''CHECKIN''" and "fromKoha e c msg = (c', es)"
  shows "state c' = RFIDCheckinWaitForBegOK \<and> branch c' = Branch msg
         \<and> current c' = current c \<and> items c' = items c
         \<and> failedAlarmOn c' = failedAlarmOn c \<and> failedAlarmOff c' = failedAlarmOff c
         \<and> es = RfidReset # sendToRFID e \<lparr>Cmd = cmdBeginScan\<rparr>
         \<and> toRFID es = [\<lparr>Cmd = cmdBeginScan\<rparr>]"
  using assms by (auto simp: fromKoha_def toRFID_sendToRFID)

theorem checkin_in_every_state_witness:
  "Action checkin_B1 = ''CHECKIN''
   \<and> state (fst (fromKoha env_ok rescanning checkin_B1)) = RFIDCheckinWaitForBegOK
   \<and> branch (fst (fromKoha env_ok rescanning checkin_B1)) = ''B1''
   \<and> items (fst (fromKoha env_ok rescanning checkin_B1)) = items rescanning
   \<and> failedAlarmOn (fst (fromKoha env_ok rescanning checkin_B1)) = [''A1'' \<mapsto> ''T1'']
   \<and> toRFID (snd (fromKoha env_ok rescanning checkin_B1)) = [\<lparr>Cmd = cmdBeginScan\<rparr>]"
proof -
  have a: "Action checkin_B1 = ''CHECKIN''" by (simp add: checkin_B1_def)
  have b: "fromKoha env_ok rescanning checkin_B1
           = (fst (fromKoha env_ok rescanning checkin_B1), snd (fromKoha env_ok rescanning checkin_B1))"
    by simp
  have r: "failedAlarmOn rescanning = [''A1'' \<mapsto> ''T1'']" by (simp add: rescanning_eq)
  have br: "Branch checkin_B1 = ''B1''" by (simp add: checkin_B1_def)
  from checkin_in_every_state [OF a b] a r br show ?thesis by (simp add: toRFID_sendToRFID)
qed

text \<open>
  C4. An END action handled in state \<open>RFIDCheckin\<close> sets the state to
  \<open>RFIDWaitForEndOK\<close> and hands no command to the device: the end-scan command of
  the claim is not sent. The CHECKIN branch beside it does send begin-scan after it
  sets its wait state.
\<close>

theorem end_sends_no_command:
  "Action end_msg = ''END'' \<and> state scanning = RFIDCheckin
   \<and> fromKoha env_ok scanning end_msg = (scanning\<lparr>state := RFIDWaitForEndOK\<rparr>, [])
   \<and> toRFID (snd (fromKoha env_ok scanning end_msg)) = []
   \<and> Action checkin_B1 = ''CHECKIN''
   \<and> toRFID (snd (fromKoha env_ok scanning checkin_B1)) = [\<lparr>Cmd = cmdBeginScan\<rparr>]"
  by (simp add: scanning_eq fromKoha_def end_msg_def checkin_B1_def env_ok_def sendToRFID_def)

section \<open>Scans\<close>

text \<open>
  C5, as stated, fails: for the failed scan of \<open>10B2\<close>, a barcode that is not the
  current item's, the item-status request is built from \<open>10B2\<close>, not from the
  normalised \<open>B2\<close>.
\<close>

theorem item_status_barcode_counterexample:
  "state rescanning = RFIDCheckin \<and> \<not> OK miss_B2 \<and> RFIDResp.Barcode miss_B2 = ''10B2''
   \<and> Item.Barcode (Item (current rescanning)) = ''A1''
   \<and> stripLeading10 (RFIDResp.Barcode miss_B2) = ''B2''
   \<and> sipCalls (snd (fromRFID env_ok rescanning miss_B2))
       = [(sipFormMsgItemStatus ''10B2'', itemStatusParse)]
   \<and> sipCalls (snd (fromRFID env_ok rescanning miss_B2))
       \<noteq> [(sipFormMsgItemStatus ''B2'', itemStatusParse)]"
  by (simp add: rescanning_eq fromRFID_def sipCalls_checkinNotOK miss_B2_def item_A1_def
      stripLeading10_def TrimPrefix_def HasPrefix_def)

text \<open>
  C5, amended. In state \<open>RFIDCheckin\<close> the backend requests of a turn are built from
  the barcode as the device sent it, prefix included: the checkin request from the
  branch and that barcode when the response is OK, the item-status request from that
  barcode when the response is not OK and the normalised barcode is not the current
  item's, and no request otherwise. The normalised barcode serves the comparison only
  (and the keys of the maps).
\<close>

theorem backend_gets_device_barcode:
  assumes "state c = RFIDCheckin" and "fromRFID e c resp = (c', es)"
  shows "sipCalls es =
           (if OK resp then [(sipFormMsgCheckin (branch c) (RFIDResp.Barcode resp), checkinParse)]
            else if stripLeading10 (RFIDResp.Barcode resp) \<noteq> Item.Barcode (Item (current c))
            then [(sipFormMsgItemStatus (RFIDResp.Barcode resp), itemStatusParse)]
            else [])"
proof -
  from assms have "es = snd (if \<not> OK resp then checkinNotOK e c resp else checkinOK e c resp)"
    by (simp add: fromRFID_checkin)
  then show ?thesis
    by (simp add: sipCalls_checkinOK sipCalls_checkinNotOK)
qed

theorem backend_gets_device_barcode_witness:
  "state rescanning = RFIDCheckin
   \<and> sipCalls (snd (fromRFID env_ok rescanning miss_B2))
       = [(sipFormMsgItemStatus ''10B2'', itemStatusParse)]
   \<and> sipCalls (snd (fromRFID env_ok rescanning scan_A1))
       = [(sipFormMsgCheckin ''B1'' ''10A1'', checkinParse)]
   \<and> sipCalls (snd (fromRFID env_ok rescanning miss_A1)) = []"
proof -
  have a: "state rescanning = RFIDCheckin" by (simp add: rescanning_eq)
  have b: "fromRFID env_ok rescanning r = (fst (fromRFID env_ok rescanning r), snd (fromRFID env_ok rescanning r))"
    for r by simp
  have f: "\<not> OK miss_B2" "RFIDResp.Barcode miss_B2 = ''10B2''"
    "OK scan_A1" "RFIDResp.Barcode scan_A1 = ''10A1''"
    "\<not> OK miss_A1" "RFIDResp.Barcode miss_A1 = ''10A1''"
    by (simp_all add: miss_B2_def scan_A1_def miss_A1_def)
  have g: "branch rescanning = ''B1''" "Item.Barcode (Item (current rescanning)) = ''A1''"
    by (simp_all add: rescanning_eq item_A1_def)
  have h: "stripLeading10 ''10B2'' = ''B2''" "stripLeading10 ''10A1'' = ''A1''"
    by (simp_all add: stripLeading10_def TrimPrefix_def HasPrefix_def)
  from backend_gets_device_barcode [OF a b [of miss_B2]]
    backend_gets_device_barcode [OF a b [of scan_A1]]
    backend_gets_device_barcode [OF a b [of miss_A1]] a f g h
  show ?thesis by simp
qed

text \<open>
  C6. In state \<open>RFIDCheckin\<close>, on an OK response whose checkin call returns no error:
  when the returned item is unknown or its transaction failed, \<open>cmdAlarmLeave\<close> (the
  specification's set-alarm-off) is handed to the device, the state becomes
  \<open>RFIDWaitForCheckinAlarmLeave\<close> and both retry maps are as before; otherwise
  \<open>failedAlarmOn\<close> maps the normalised barcode to the response's tag, \<open>cmdAlarmOn\<close>
  is handed to the device and the state becomes \<open>RFIDWaitForCheckinAlarmOn\<close>.
\<close>

theorem checkin_success_alarm:
  assumes "state c = RFIDCheckin" and "OK resp"
    and "DoSIPCall e (sipFormMsgCheckin (branch c) (RFIDResp.Barcode resp)) checkinParse = (m, None)"
    and "fromRFID e c resp = (c', es)"
  shows "if Unknown (Item m) \<or> TransactionFailed (Item m)
         then toRFID es = [\<lparr>Cmd = cmdAlarmLeave\<rparr>]
              \<and> state c' = RFIDWaitForCheckinAlarmLeave
              \<and> failedAlarmOn c' = failedAlarmOn c \<and> failedAlarmOff c' = failedAlarmOff c
         else failedAlarmOn c' = (failedAlarmOn c)(stripLeading10 (RFIDResp.Barcode resp) \<mapsto> Tag resp)
              \<and> failedAlarmOff c' = failedAlarmOff c
              \<and> toRFID es = [\<lparr>Cmd = cmdAlarmOn\<rparr>]
              \<and> state c' = RFIDWaitForCheckinAlarmOn"
proof -
  from assms(1,2,4) have eq: "checkinOK e c resp = (c', es)"
    by (simp add: fromRFID_checkin)
  show ?thesis
  proof (cases "Unknown (Item m) \<or> TransactionFailed (Item m)")
    case True
    from eq checkinOK_release [OF assms(3) True] True show ?thesis
      by (auto simp: toRFID_sendToRFID)
  next
    case False
    from eq checkinOK_arm [OF assms(3) False] False show ?thesis
      by (auto simp: toRFID_sendToRFID)
  qed
qed

theorem checkin_success_alarm_witness:
  "state scanning = RFIDCheckin \<and> OK scan_A1
   \<and> DoSIPCall env_ok (sipFormMsgCheckin (branch scanning) (RFIDResp.Barcode scan_A1)) checkinParse
       = (Message0\<lparr>Item := item_A1\<rparr>, None)
   \<and> failedAlarmOn (fst (fromRFID env_ok scanning scan_A1)) = [''A1'' \<mapsto> ''T1'']
   \<and> toRFID (snd (fromRFID env_ok scanning scan_A1)) = [\<lparr>Cmd = cmdAlarmOn\<rparr>]
   \<and> state (fst (fromRFID env_ok scanning scan_A1)) = RFIDWaitForCheckinAlarmOn
   \<and> DoSIPCall env_unknown (sipFormMsgCheckin (branch scanning) (RFIDResp.Barcode scan_A1)) checkinParse
       = (Message0\<lparr>Item := item_unknown\<rparr>, None)
   \<and> failedAlarmOn (fst (fromRFID env_unknown scanning scan_A1)) = Map.empty
   \<and> toRFID (snd (fromRFID env_unknown scanning scan_A1)) = [\<lparr>Cmd = cmdAlarmLeave\<rparr>]
   \<and> state (fst (fromRFID env_unknown scanning scan_A1)) = RFIDWaitForCheckinAlarmLeave"
proof -
  have a: "state scanning = RFIDCheckin" by (simp add: scanning_eq)
  have b: "OK scan_A1" by (simp add: scan_A1_def)
  have d: "DoSIPCall env_ok (sipFormMsgCheckin (branch scanning) (RFIDResp.Barcode scan_A1)) checkinParse
           = (Message0\<lparr>Item := item_A1\<rparr>, None)"
    by (simp add: env_ok_def)
  have d': "DoSIPCall env_unknown (sipFormMsgCheckin (branch scanning) (RFIDResp.Barcode scan_A1)) checkinParse
           = (Message0\<lparr>Item := item_unknown\<rparr>, None)"
    by (simp add: env_unknown_def)
  have p: "fromRFID en scanning scan_A1 = (fst (fromRFID en scanning scan_A1), snd (fromRFID en scanning scan_A1))"
    for en by simp
  have f: "\<not> (Unknown (Item (Message0\<lparr>Item := item_A1\<rparr>)) \<or> TransactionFailed (Item (Message0\<lparr>Item := item_A1\<rparr>)))"
    "Unknown (Item (Message0\<lparr>Item := item_unknown\<rparr>))"
    "failedAlarmOn scanning = Map.empty" "Tag scan_A1 = ''T1''"
    "stripLeading10 (RFIDResp.Barcode scan_A1) = ''A1''"
    by (simp_all add: item_A1_def item_unknown_def scanning_eq scan_A1_def
        stripLeading10_def TrimPrefix_def HasPrefix_def)
  from checkin_success_alarm [OF a b d p] checkin_success_alarm [OF a b d' p] a b d d' f
  show ?thesis by simp
qed

text \<open>
  C8. In state \<open>RFIDCheckin\<close>, on an OK response whose checkin call returns an error:
  the UI is sent one message, with action CHECKIN, the backend-error flag and the
  error's text; the state is still \<open>RFIDCheckin\<close>, the pending-items map and both
  retry maps are unchanged, no quit is signalled and nothing is handed to the device.
  Only \<open>current\<close> changes: it is the message the failed call returned.
\<close>

theorem checkin_call_failure:
  assumes "state c = RFIDCheckin" and "OK resp"
    and "DoSIPCall e (sipFormMsgCheckin (branch c) (RFIDResp.Barcode resp)) checkinParse = (m, Some err)"
    and "fromRFID e c resp = (c', es)"
  shows "toKoha es = [Message0\<lparr>Action := ''CHECKIN'', SIPError := True, ErrorMessage := err\<rparr>]
         \<and> state c' = RFIDCheckin
         \<and> items c' = items c \<and> failedAlarmOn c' = failedAlarmOn c
         \<and> failedAlarmOff c' = failedAlarmOff c
         \<and> QuitSignal \<notin> set es \<and> toRFID es = []
         \<and> c' = c\<lparr>current := m\<rparr>"
proof -
  from assms(1,2,4) have "checkinOK e c resp = (c', es)"
    by (simp add: fromRFID_checkin)
  with checkinOK_error [OF assms(3)] assms(1) show ?thesis
    by auto
qed

theorem checkin_call_failure_witness:
  "state rescanning = RFIDCheckin \<and> OK scan_A1
   \<and> DoSIPCall env_sip_down (sipFormMsgCheckin (branch rescanning) (RFIDResp.Barcode scan_A1)) checkinParse
       = (Message0, Some ''timeout'')
   \<and> toKoha (snd (fromRFID env_sip_down rescanning scan_A1))
       = [Message0\<lparr>Action := ''CHECKIN'', SIPError := True, ErrorMessage := ''timeout''\<rparr>]
   \<and> state (fst (fromRFID env_sip_down rescanning scan_A1)) = RFIDCheckin
   \<and> failedAlarmOn (fst (fromRFID env_sip_down rescanning scan_A1)) = [''A1'' \<mapsto> ''T1'']
   \<and> toRFID (snd (fromRFID env_sip_down rescanning scan_A1)) = []"
proof -
  have a: "state rescanning = RFIDCheckin" by (simp add: rescanning_eq)
  have b: "OK scan_A1" by (simp add: scan_A1_def)
  have d: "DoSIPCall env_sip_down (sipFormMsgCheckin (branch rescanning) (RFIDResp.Barcode scan_A1)) checkinParse
           = (Message0, Some ''timeout'')"
    by (simp add: env_sip_down_def)
  have p: "fromRFID env_sip_down rescanning scan_A1
           = (fst (fromRFID env_sip_down rescanning scan_A1), snd (fromRFID env_sip_down rescanning scan_A1))"
    by simp
  have f: "failedAlarmOn rescanning = [''A1'' \<mapsto> ''T1'']" by (simp add: rescanning_eq)
  from checkin_call_failure [OF a b d p] a b d f show ?thesis by simp
qed


text \<open>
  C7, as stated, fails when the item-status query fails: for the failed scan of
  \<open>10B2\<close> with the backend down, the query is issued, and then nothing is recorded
  under \<open>B2\<close>, nothing is handed to the device and the state is still
  \<open>RFIDCheckin\<close>.
\<close>

theorem scan_failure_query_error_counterexample:
  "state rescanning = RFIDCheckin \<and> \<not> OK miss_B2
   \<and> stripLeading10 (RFIDResp.Barcode miss_B2) = ''B2''
   \<and> sipCalls (snd (fromRFID env_sip_down rescanning miss_B2))
       = [(sipFormMsgItemStatus ''10B2'', itemStatusParse)]
   \<and> items (fst (fromRFID env_sip_down rescanning miss_B2)) ''B2'' = None
   \<and> toRFID (snd (fromRFID env_sip_down rescanning miss_B2)) = []
   \<and> state (fst (fromRFID env_sip_down rescanning miss_B2)) = RFIDCheckin
   \<and> state (fst (fromRFID env_sip_down rescanning miss_B2)) \<noteq> RFIDWaitForCheckinAlarmLeave"
  by (simp add: rescanning_eq fromRFID_def checkinNotOK_def sendToKoha_def miss_B2_def item_A1_def
      env_sip_down_def stripLeading10_def TrimPrefix_def HasPrefix_def)

text \<open>
  C7, amended. In state \<open>RFIDCheckin\<close>, on a response that is not OK: an item-status
  query is issued exactly when the normalised barcode is not the current item's; no
  \<open>cmdAlarmOn\<close> is handed to the device and the retry maps are unchanged; when the
  query was not issued or returned no error, the context (the current transaction, or
  the query's result) is recorded with action CHECKIN under the normalised barcode,
  \<open>cmdAlarmLeave\<close> is handed to the device and the state becomes
  \<open>RFIDWaitForCheckinAlarmLeave\<close>; when the query returned an error, the UI gets a
  CONNECT message with the backend-error flag and the error's text, quit is signalled,
  and the state, the pending-items map and the device are left alone.
\<close>

theorem scan_failure_turn:
  assumes "state c = RFIDCheckin" and "\<not> OK resp" and "fromRFID e c resp = (c', es)"
  shows "sipCalls es =
           (if stripLeading10 (RFIDResp.Barcode resp) \<noteq> Item.Barcode (Item (current c))
            then [(sipFormMsgItemStatus (RFIDResp.Barcode resp), itemStatusParse)] else [])
         \<and> \<lparr>Cmd = cmdAlarmOn\<rparr> \<notin> set (toRFID es)
         \<and> failedAlarmOn c' = failedAlarmOn c \<and> failedAlarmOff c' = failedAlarmOff c
         \<and> (stripLeading10 (RFIDResp.Barcode resp) = Item.Barcode (Item (current c))
              \<or> snd (DoSIPCall e (sipFormMsgItemStatus (RFIDResp.Barcode resp)) itemStatusParse) = None
            \<longrightarrow> current c' =
                  (if stripLeading10 (RFIDResp.Barcode resp) = Item.Barcode (Item (current c))
                   then current c
                   else fst (DoSIPCall e (sipFormMsgItemStatus (RFIDResp.Barcode resp)) itemStatusParse))
                  \<lparr>Action := ''CHECKIN''\<rparr>
                \<and> items c' = (items c)(stripLeading10 (RFIDResp.Barcode resp) \<mapsto> current c')
                \<and> toRFID es = [\<lparr>Cmd = cmdAlarmLeave\<rparr>]
                \<and> state c' = RFIDWaitForCheckinAlarmLeave)
         \<and> (\<forall>err. stripLeading10 (RFIDResp.Barcode resp) \<noteq> Item.Barcode (Item (current c))
                \<and> snd (DoSIPCall e (sipFormMsgItemStatus (RFIDResp.Barcode resp)) itemStatusParse)
                    = Some err
            \<longrightarrow> state c' = RFIDCheckin \<and> items c' = items c \<and> toRFID es = []
                \<and> toKoha es = [Message0\<lparr>Action := ''CONNECT'', SIPError := True,
                                          ErrorMessage := err\<rparr>]
                \<and> QuitSignal \<in> set es)"
proof -
  from assms have eq: "checkinNotOK e c resp = (c', es)"
    by (simp add: fromRFID_checkin)
  then have calls: "sipCalls es =
           (if stripLeading10 (RFIDResp.Barcode resp) \<noteq> Item.Barcode (Item (current c))
            then [(sipFormMsgItemStatus (RFIDResp.Barcode resp), itemStatusParse)] else [])"
    using sipCalls_checkinNotOK [of e c resp] by simp
  show ?thesis
  proof (cases "stripLeading10 (RFIDResp.Barcode resp) = Item.Barcode (Item (current c))")
    case True
    from eq checkinNotOK_same [OF True, of e] have
      "c' = c\<lparr>current := (current c)\<lparr>Action := ''CHECKIN''\<rparr>,
               items := (items c)(stripLeading10 (RFIDResp.Barcode resp) \<mapsto>
                          (current c)\<lparr>Action := ''CHECKIN''\<rparr>),
               state := RFIDWaitForCheckinAlarmLeave\<rparr>"
      "es = sendToRFID e \<lparr>Cmd = cmdAlarmLeave\<rparr>"
      by simp_all
    with True calls show ?thesis by (simp add: toRFID_sendToRFID)
  next
    case False
    obtain m r where d: "DoSIPCall e (sipFormMsgItemStatus (RFIDResp.Barcode resp)) itemStatusParse = (m, r)"
      by (cases "DoSIPCall e (sipFormMsgItemStatus (RFIDResp.Barcode resp)) itemStatusParse")
    show ?thesis
    proof (cases r)
      case None
      from eq checkinNotOK_query_ok [OF False d [unfolded None]] have
        "c' = c\<lparr>current := m\<lparr>Action := ''CHECKIN''\<rparr>,
               items := (items c)(stripLeading10 (RFIDResp.Barcode resp) \<mapsto>
                          m\<lparr>Action := ''CHECKIN''\<rparr>),
               state := RFIDWaitForCheckinAlarmLeave\<rparr>"
        "es = SIPCall (sipFormMsgItemStatus (RFIDResp.Barcode resp)) itemStatusParse #
              sendToRFID e \<lparr>Cmd = cmdAlarmLeave\<rparr>"
        by simp_all
      with False calls d None show ?thesis by (simp add: toRFID_sendToRFID)
    next
      case (Some err)
      from eq checkinNotOK_query_error [OF False d [unfolded Some]] have
        "c' = c\<lparr>current := m\<rparr>"
        "es = [SIPCall (sipFormMsgItemStatus (RFIDResp.Barcode resp)) itemStatusParse,
               ToKoha (Message0\<lparr>Action := ''CONNECT'', SIPError := True, ErrorMessage := err\<rparr>),
               QuitSignal]"
        by simp_all
      with False calls d Some assms(1) show ?thesis by simp
    qed
  qed
qed

theorem scan_failure_turn_witness:
  "state rescanning = RFIDCheckin \<and> \<not> OK miss_B2 \<and> \<not> OK miss_A1
   \<and> sipCalls (snd (fromRFID env_ok rescanning miss_B2))
       = [(sipFormMsgItemStatus ''10B2'', itemStatusParse)]
   \<and> items (fst (fromRFID env_ok rescanning miss_B2)) ''B2''
       = Some (Message0\<lparr>Item := item_A1, Action := ''CHECKIN''\<rparr>)
   \<and> toRFID (snd (fromRFID env_ok rescanning miss_B2)) = [\<lparr>Cmd = cmdAlarmLeave\<rparr>]
   \<and> state (fst (fromRFID env_ok rescanning miss_B2)) = RFIDWaitForCheckinAlarmLeave
   \<and> sipCalls (snd (fromRFID env_ok rescanning miss_A1)) = []
   \<and> toRFID (snd (fromRFID env_ok rescanning miss_A1)) = [\<lparr>Cmd = cmdAlarmLeave\<rparr>]
   \<and> state (fst (fromRFID env_ok rescanning miss_A1)) = RFIDWaitForCheckinAlarmLeave
   \<and> state (fst (fromRFID env_sip_down rescanning miss_B2)) = RFIDCheckin
   \<and> toRFID (snd (fromRFID env_sip_down rescanning miss_B2)) = []
   \<and> QuitSignal \<in> set (snd (fromRFID env_sip_down rescanning miss_B2))"
proof -
  have a: "state rescanning = RFIDCheckin" by (simp add: rescanning_eq)
  have b: "\<not> OK miss_B2" "\<not> OK miss_A1" by (simp_all add: miss_B2_def miss_A1_def)
  have p: "fromRFID en rescanning r = (fst (fromRFID en rescanning r), snd (fromRFID en rescanning r))"
    for en r by simp
  have f: "stripLeading10 (RFIDResp.Barcode miss_B2) = ''B2''"
    "stripLeading10 (RFIDResp.Barcode miss_A1) = ''A1''"
    "RFIDResp.Barcode miss_B2 = ''10B2''"
    "Item.Barcode (Item (current rescanning)) = ''A1''"
    "DoSIPCall env_ok (sipFormMsgItemStatus ''10B2'') itemStatusParse = (Message0\<lparr>Item := item_A1\<rparr>, None)"
    "DoSIPCall env_sip_down (sipFormMsgItemStatus ''10B2'') itemStatusParse = (Message0, Some ''timeout'')"
    by (simp_all add: miss_B2_def miss_A1_def rescanning_eq item_A1_def env_ok_def env_sip_down_def
        stripLeading10_def TrimPrefix_def HasPrefix_def)
  from scan_failure_turn [OF a b(1) p [of env_ok miss_B2]]
    scan_failure_turn [OF a b(2) p [of env_ok miss_A1]]
    scan_failure_turn [OF a b(1) p [of env_sip_down miss_B2]] a b f
  show ?thesis by simp
qed

end
